theory Spec2Isabelle
  imports Complex_Main
begin

section \<open>Tables, cells and exceptions\<close>

text \<open>
  The repository holds one program: the notebook
  \<^verbatim>\<open>Machine_Learning_2/Reference Material/190053-Reactors-DS-Tr2-Sec1-2-PCA.ipynb\<close>,
  a sequence of cells that call pandas, SciPy and scikit-learn. A table cell is a
  float, a 64-bit integer, a string or the missing value. Python floats are idealised as
  reals, so no statement below depends on rounding; an \<^verbatim>\<open>int64\<close> is an integer
  between \<open>-2^63\<close> and \<open>2^63 - 1\<close> whose arithmetic wraps around, as NumPy's does.
  pandas gives a column one type (\<^verbatim>\<open>int64\<close> when every field of the CSV column is an
  integer, \<^verbatim>\<open>float64\<close> when a field is a decimal or missing); here each cell carries
  its own. Column labels are the header strings of the CSV
  file, or the integer positions \<open>0, 1, ...\<close> that \<^verbatim>\<open>pd.DataFrame(array)\<close>
  assigns. The character \<open>0xB5\<close> is the micro sign of the \<^verbatim>\<open>latin_1\<close> header.
\<close>

datatype cell = Num real | I64 int | Str string | NaN

text \<open>The value of a number; used to compare and to hand numbers on as floats.\<close>

fun num_of :: "cell \<Rightarrow> real" where
  "num_of (Num v) = v"
| "num_of (I64 i) = of_int i"
| "num_of c = 0"

datatype colname = ColIdx nat | ColName string

datatype error =
    KeyError | IndexError | ValueError | TypeError | NameError | LibraryError string

text \<open>
  A DataFrame is its row labels and its columns in order, each column a label with one
  value per row.
\<close>

record dataframe =
  index :: "cell list"
  cols :: "(colname \<times> cell list) list"

definition columns :: "dataframe \<Rightarrow> colname list" where
  "columns d = map fst (cols d)"

definition wf_frame :: "dataframe \<Rightarrow> bool" where
  "wf_frame d \<longleftrightarrow>
     distinct (columns d) \<and> list_all (\<lambda>cv. length (snd cv) = length (index d)) (cols d)"

definition bindE :: "error + 'a \<Rightarrow> ('a \<Rightarrow> error + 'b) \<Rightarrow> error + 'b" where
  "bindE m f = (case m of Inl e \<Rightarrow> Inl e | Inr x \<Rightarrow> f x)"

section \<open>The pandas operations the notebook calls\<close>

text \<open>\<^verbatim>\<open>d.loc[:, c]\<close> and \<^verbatim>\<open>d[c]\<close>: the column labelled \<open>c\<close>, KeyError when there is none.\<close>

definition loc_col :: "dataframe \<Rightarrow> colname \<Rightarrow> error + cell list" where
  "loc_col d c = (case map_of (cols d) c of None \<Rightarrow> Inl KeyError | Some vs \<Rightarrow> Inr vs)"

text \<open>Selection of rows by position, used by \<^verbatim>\<open>dropna\<close> and \<^verbatim>\<open>sort_values\<close>.\<close>

definition take_rows :: "nat list \<Rightarrow> dataframe \<Rightarrow> dataframe" where
  "take_rows ps d =
     \<lparr>index = map (nth (index d)) ps,
      cols = map (\<lambda>cv. (fst cv, map (nth (snd cv)) ps)) (cols d)\<rparr>"

text \<open>
  \<^verbatim>\<open>df.dropna()\<close>: keeps, in order, the rows with no missing value in any column.
  The notebook names it in a markdown cell ("The correct code to use is
  \<^verbatim>\<open>df = df.dropna()\<close>"), but the code cell of that exercise is empty: no statement of
  the notebook calls it. It serves below to say which rows the code leaves in place.
\<close>

definition complete_row :: "dataframe \<Rightarrow> nat \<Rightarrow> bool" where
  "complete_row d i = list_all (\<lambda>cv. snd cv ! i \<noteq> NaN) (cols d)"

definition dropna :: "dataframe \<Rightarrow> dataframe" where
  "dropna d = take_rows (filter (complete_row d) [0..<length (index d)]) d"

text \<open>\<^verbatim>\<open>df.iloc[:, js]\<close> with a list of positions: IndexError when one is out of bounds.\<close>

definition iloc_cols :: "dataframe \<Rightarrow> nat list \<Rightarrow> error + dataframe" where
  "iloc_cols d js =
     (if list_all (\<lambda>j. j < length (cols d)) js
      then Inr (d\<lparr>cols := map (nth (cols d)) js\<rparr>)
      else Inl IndexError)"

text \<open>\<^verbatim>\<open>df.iloc[:, :-k]\<close> for \<open>k > 0\<close>: a slice never raises; it is empty when there
  are fewer than \<open>k\<close> columns.\<close>

definition iloc_drop_last :: "dataframe \<Rightarrow> nat \<Rightarrow> dataframe" where
  "iloc_drop_last d k = d\<lparr>cols := take (length (cols d) - k) (cols d)\<rparr>"

text \<open>\<^verbatim>\<open>df.drop(names, axis=1)\<close>: KeyError when a name is not a column.\<close>

definition drop_columns :: "dataframe \<Rightarrow> colname list \<Rightarrow> error + dataframe" where
  "drop_columns d names =
     (if list_all (\<lambda>n. n \<in> set (columns d)) names
      then Inr (d\<lparr>cols := filter (\<lambda>cv. fst cv \<notin> set names) (cols d)\<rparr>)
      else Inl KeyError)"

text \<open>\<^verbatim>\<open>df.set_index(name)\<close>: the column becomes the row labels and leaves the columns.\<close>

definition set_index :: "dataframe \<Rightarrow> colname \<Rightarrow> error + dataframe" where
  "set_index d name =
     (case map_of (cols d) name of
        None \<Rightarrow> Inl KeyError
      | Some vs \<Rightarrow> Inr \<lparr>index = vs, cols = filter (\<lambda>cv. fst cv \<noteq> name) (cols d)\<rparr>)"

text \<open>\<^verbatim>\<open>df + 1\<close>: adds one to every number, leaves a missing value missing, and raises
  TypeError on a string. On an \<^verbatim>\<open>int64\<close> the sum wraps: \<open>2^63 - 1\<close> becomes
  \<open>-2^63\<close>.\<close>

definition wrap64 :: "int \<Rightarrow> int" where
  "wrap64 i = (i + 9223372036854775808) mod 18446744073709551616 - 9223372036854775808"

fun is_str :: "cell \<Rightarrow> bool" where
  "is_str (Str s) = True"
| "is_str c = False"

fun add_one :: "cell \<Rightarrow> cell" where
  "add_one (Num v) = Num (v + 1)"
| "add_one (I64 i) = I64 (wrap64 (i + 1))"
| "add_one c = c"

definition plus_one :: "dataframe \<Rightarrow> error + dataframe" where
  "plus_one d =
     (if list_ex (\<lambda>cv. list_ex is_str (snd cv)) (cols d) then Inl TypeError
      else Inr (d\<lparr>cols := map (\<lambda>cv. (fst cv, map add_one (snd cv))) (cols d)\<rparr>))"

text \<open>\<^verbatim>\<open>d[c] = values\<close> with an array: replaces the column \<open>c\<close> or appends it;
  ValueError when the array's length is not the number of rows.\<close>

definition assign_column :: "dataframe \<Rightarrow> colname \<Rightarrow> cell list \<Rightarrow> error + dataframe" where
  "assign_column d c vs =
     (if length vs \<noteq> length (index d) then Inl ValueError
      else if c \<in> set (columns d)
      then Inr (d\<lparr>cols := map (\<lambda>cv. if fst cv = c then (c, vs) else cv) (cols d)\<rparr>)
      else Inr (d\<lparr>cols := cols d @ [(c, vs)]\<rparr>))"

text \<open>\<^verbatim>\<open>df.rename(columns=m)\<close>: labels that are keys of \<open>m\<close> are replaced.\<close>

definition rename_columns :: "dataframe \<Rightarrow> (colname \<times> colname) list \<Rightarrow> dataframe" where
  "rename_columns d m =
     d\<lparr>cols := map (\<lambda>cv. (case map_of m (fst cv) of None \<Rightarrow> fst cv | Some c \<Rightarrow> c, snd cv))
                  (cols d)\<rparr>"

text \<open>\<^verbatim>\<open>pd.DataFrame(a, index=idx)\<close> from a two-dimensional array: columns labelled by
  position; ValueError when the array's row count is not the number of labels.\<close>

definition ncols :: "real list list \<Rightarrow> nat" where
  "ncols a = (case a of [] \<Rightarrow> 0 | r # rs \<Rightarrow> length r)"

definition frame_of_array :: "real list list \<Rightarrow> cell list \<Rightarrow> error + dataframe" where
  "frame_of_array a idx =
     (if length a \<noteq> length idx then Inl ValueError
      else Inr \<lparr>index = idx,
                cols = map (\<lambda>j. (ColIdx j, map (\<lambda>r. Num (r ! j)) a)) [0..<ncols a]\<rparr>)"

text \<open>
  \<^verbatim>\<open>left.join(right)\<close>: a left join on the row labels. Each left row is paired with
  every right row carrying the same label, in the right table's order, or with no row
  when there is none; the right columns of an unpaired row are missing values.
  ValueError when a column label occurs on both sides. Labels are compared by value: the
  integer 1 and the float 1.0 are the same label.
\<close>

fun label_key :: "cell \<Rightarrow> cell" where
  "label_key (I64 i) = Num (of_int i)"
| "label_key c = c"

definition matches :: "cell \<Rightarrow> cell list \<Rightarrow> nat list" where
  "matches l idx = filter (\<lambda>k. label_key (idx ! k) = label_key l) [0..<length idx]"

definition join_pairs :: "cell list \<Rightarrow> cell list \<Rightarrow> (nat \<times> nat option) list" where
  "join_pairs li ri =
     concat (map (\<lambda>i. if matches (li ! i) ri = [] then [(i, None)]
                       else map (\<lambda>k. (i, Some k)) (matches (li ! i) ri))
                 [0..<length li])"

definition pick_right :: "cell list \<Rightarrow> nat option \<Rightarrow> cell" where
  "pick_right vs m = (case m of None \<Rightarrow> NaN | Some k \<Rightarrow> vs ! k)"

definition join :: "dataframe \<Rightarrow> dataframe \<Rightarrow> error + dataframe" where
  "join l r =
     (if list_ex (\<lambda>c. c \<in> set (columns l)) (columns r) then Inl ValueError
      else Inr \<lparr>index = map (\<lambda>p. index l ! fst p) (join_pairs (index l) (index r)),
                cols =
                  map (\<lambda>cv. (fst cv, map (\<lambda>p. snd cv ! fst p) (join_pairs (index l) (index r))))
                      (cols l) @
                  map (\<lambda>cv. (fst cv, map (\<lambda>p. pick_right (snd cv) (snd p))
                                           (join_pairs (index l) (index r))))
                      (cols r)\<rparr>)"

text \<open>
  \<^verbatim>\<open>df.sort_values(by=c)\<close>: rows in ascending order of column \<open>c\<close>, missing values
  last; KeyError without the column, TypeError when the column mixes numbers and strings.
  Rows with equal keys keep their order here (pandas leaves their order open).
\<close>

fun str_le :: "string \<Rightarrow> string \<Rightarrow> bool" where
  "str_le [] t = True"
| "str_le (a # s) [] = False"
| "str_le (a # s) (b # t) =
     (if (of_char a :: nat) < of_char b then True
      else if (of_char b :: nat) < of_char a then False
      else str_le s t)"

fun cell_le :: "cell \<Rightarrow> cell \<Rightarrow> bool" where
  "cell_le x NaN = True"
| "cell_le NaN y = False"
| "cell_le (Str s) (Str t) = str_le s t"
| "cell_le (Str s) y = False"
| "cell_le x (Str t) = True"
| "cell_le x y = (num_of x \<le> num_of y)"

fun is_num :: "cell \<Rightarrow> bool" where
  "is_num (Num v) = True"
| "is_num (I64 i) = True"
| "is_num c = False"

fun insert_pos :: "cell list \<Rightarrow> nat \<Rightarrow> nat list \<Rightarrow> nat list" where
  "insert_pos keys i [] = [i]"
| "insert_pos keys i (j # js) =
     (if cell_le (keys ! i) (keys ! j) then i # j # js else j # insert_pos keys i js)"

definition sorted_positions :: "cell list \<Rightarrow> nat list" where
  "sorted_positions keys = foldr (insert_pos keys) [0..<length keys] []"

definition sort_values :: "dataframe \<Rightarrow> colname \<Rightarrow> error + dataframe" where
  "sort_values d c =
     bindE (loc_col d c) (\<lambda>keys.
       if list_ex is_num keys \<and> list_ex is_str keys then Inl TypeError
       else Inr (take_rows (sorted_positions keys) d))"

text \<open>\<^verbatim>\<open>series.value_counts()\<close>: each value that is not missing with its number of
  occurrences, the most frequent first.\<close>

definition value_counts :: "cell list \<Rightarrow> (cell \<times> nat) list" where
  "value_counts vs =
     sort_key (\<lambda>p. - int (snd p))
       (map (\<lambda>v. (v, count_list vs v)) (remdups (filter (\<lambda>v. v \<noteq> NaN) vs)))"

section \<open>The numerical libraries\<close>

text \<open>
  SciPy and scikit-learn are not part of the repository: the routines the notebook calls
  are parameters of the model, each returning a result or the exception it raises.
  \<open>read_csv\<close> stands for \<^verbatim>\<open>pd.read_csv\<close> on the file system of the run.
\<close>

record fitted =
  explained_variance_ratio :: "real list"
  components :: "real list list"

datatype pyval = Frame dataframe | Array "real list list"

record library =
  read_csv :: "string \<Rightarrow> string \<Rightarrow> error + dataframe"
  boxcox_fit :: "cell list \<Rightarrow> error + real list \<times> real"
  scaler_fit_transform :: "pyval \<Rightarrow> error + real list list"
  pca_fit_transform :: "pyval \<Rightarrow> error + fitted \<times> real list list"

text \<open>
  \<^verbatim>\<open>scipy.stats.boxcox(x)\<close> returns the transformed data and the fitted exponent. The
  notebook states its precondition ("it requires strictly positive input"): a value that
  is not positive makes the call raise ValueError before anything is fitted.
\<close>

fun nonpositive :: "cell \<Rightarrow> bool" where
  "nonpositive (Num v) = (v \<le> 0)"
| "nonpositive (I64 i) = (i \<le> 0)"
| "nonpositive c = False"

definition boxcox :: "library \<Rightarrow> cell list \<Rightarrow> error + real list \<times> real" where
  "boxcox L xs = (if list_ex nonpositive xs then Inl ValueError else boxcox_fit L xs)"

section \<open>The cells of the notebook\<close>

text \<open>
  The transform cell:
  \<^verbatim>\<open>
  nutr_df_TF = pd.DataFrame(index=nutr_df.index)
  for col in nutr_df.columns.values:
      nutr_df_TF['{}_TF'.format(col)] = boxcox(nutr_df.loc[:, col])[0]
  \<close>
\<close>

function string_of_nat :: "nat \<Rightarrow> string" where
  "string_of_nat n =
     (if n < 10 then [char_of (48 + n)]
      else string_of_nat (n div 10) @ [char_of (48 + n mod 10)])"
  by pat_completeness auto
termination
  by (relation "measure id") auto

fun str_of_colname :: "colname \<Rightarrow> string" where
  "str_of_colname (ColName s) = s"
| "str_of_colname (ColIdx j) = string_of_nat j"

definition format_TF :: "colname \<Rightarrow> colname" where
  "format_TF c = ColName (str_of_colname c @ ''_TF'')"

fun boxcox_cols :: "library \<Rightarrow> dataframe \<Rightarrow> colname list \<Rightarrow> dataframe \<Rightarrow> error + dataframe" where
  "boxcox_cols L src [] acc = Inr acc"
| "boxcox_cols L src (col # rest) acc =
     bindE (loc_col src col) (\<lambda>xs.
     bindE (boxcox L xs) (\<lambda>res.
     bindE (assign_column acc (format_TF col) (map Num (fst res))) (\<lambda>acc'.
     boxcox_cols L src rest acc')))"

definition boxcox_loop :: "library \<Rightarrow> dataframe \<Rightarrow> error + dataframe" where
  "boxcox_loop L src = boxcox_cols L src (columns src) \<lparr>index = index src, cols = []\<rparr>"

text \<open>\<^verbatim>\<open>d.sort_values(by=c)[col][:k].value_counts()\<close>, the last cells' inspection.\<close>

definition top_counts :: "dataframe \<Rightarrow> colname \<Rightarrow> colname \<Rightarrow> nat \<Rightarrow> error + (cell \<times> nat) list" where
  "top_counts d c col k =
     bindE (sort_values d c) (\<lambda>sorted_d.
     bindE (loc_col sorted_d col) (\<lambda>vs.
     Inr (value_counts (take k vs))))"

text \<open>\<^verbatim>\<open>pd.Series(vects[i], index=nutr_df.columns)\<close>: IndexError when \<open>vects\<close> has no
  row \<open>i\<close>, ValueError when the row's length is not the number of labels.\<close>

definition series_of_row :: "real list list \<Rightarrow> nat \<Rightarrow> colname list \<Rightarrow> error + (colname \<times> real) list" where
  "series_of_row vs i labels =
     (if length vs \<le> i then Inl IndexError
      else if length (vs ! i) \<noteq> length labels then Inl ValueError
      else Inr (zip labels (vs ! i)))"

text \<open>
  The variables of the notebook. A variable that was never assigned is \<open>None\<close>, and
  reading it raises NameError. \<^verbatim>\<open>nutr_df_TF\<close> is first a DataFrame and then the array
  the scaler returns. Figures and printed output are not part of the state.
\<close>

record env =
  v_df :: "dataframe option"
  v_desc_df :: "dataframe option"
  v_nutr_df :: "dataframe option"
  v_nutr_df_TF :: "pyval option"
  v_fit :: "fitted option"
  v_pca :: "real list list option"
  v_pca_df :: "dataframe option"
  v_vects :: "real list list option"
  v_c1 :: "(colname \<times> real) list option"
  v_c2 :: "(colname \<times> real) list option"

definition empty_env :: env where
  "empty_env =
     \<lparr>v_df = None, v_desc_df = None, v_nutr_df = None, v_nutr_df_TF = None, v_fit = None,
      v_pca = None, v_pca_df = None, v_vects = None, v_c1 = None, v_c2 = None\<rparr>"

datatype var =
    Vdf | Vdesc_df | Vnutr_df | Vnutr_df_TF | Vfit | Vpca | Vpca_df | Vvects | Vc1 | Vc2

fun bound :: "env \<Rightarrow> var \<Rightarrow> bool" where
  "bound s Vdf = (v_df s \<noteq> None)"
| "bound s Vdesc_df = (v_desc_df s \<noteq> None)"
| "bound s Vnutr_df = (v_nutr_df s \<noteq> None)"
| "bound s Vnutr_df_TF = (v_nutr_df_TF s \<noteq> None)"
| "bound s Vfit = (v_fit s \<noteq> None)"
| "bound s Vpca = (v_pca s \<noteq> None)"
| "bound s Vpca_df = (v_pca_df s \<noteq> None)"
| "bound s Vvects = (v_vects s \<noteq> None)"
| "bound s Vc1 = (v_c1 s \<noteq> None)"
| "bound s Vc2 = (v_c2 s \<noteq> None)"

fun need :: "'a option \<Rightarrow> error + 'a" where
  "need None = Inl NameError"
| "need (Some x) = Inr x"

text \<open>
  One constructor for each kind of statement in the code cells, with the arguments the
  source gives it. \<open>Show\<close> stands for the statements that only display a variable
  (\<^verbatim>\<open>info\<close>, \<^verbatim>\<open>shape\<close>, \<^verbatim>\<open>head\<close>, \<^verbatim>\<open>hist\<close>, \<^verbatim>\<open>print\<close>,
  \<^verbatim>\<open>plt.plot\<close>, \<^verbatim>\<open>corr\<close>, a trailing \<^verbatim>\<open>sort_values\<close>).
\<close>

datatype stmt =
    ReadCsv string string
  | Show var
  | DescIloc "nat list"
  | DescSetIndex colname
  | NutrIloc nat
  | NutrDrop "colname list"
  | PlusOne
  | BoxCoxLoop
  | Scale
  | PcaFit
  | PcaDf nat
  | PcaJoin
  | PcaDrop "colname list"
  | PcaRename "(colname \<times> colname) list"
  | Vects nat
  | AssignC1 nat
  | AssignC2 nat
  | CountsBy colname colname nat
  | ColumnCounts colname

fun exec :: "library \<Rightarrow> stmt \<Rightarrow> env \<Rightarrow> error + env" where
  "exec L (ReadCsv path enc) s =
     bindE (read_csv L path enc) (\<lambda>d. Inr (s\<lparr>v_df := Some d\<rparr>))"
| "exec L (Show x) s = (if bound s x then Inr s else Inl NameError)"
| "exec L (DescIloc js) s =
     bindE (need (v_df s)) (\<lambda>d.
     bindE (iloc_cols d js) (\<lambda>d'. Inr (s\<lparr>v_desc_df := Some d'\<rparr>)))"
| "exec L (DescSetIndex c) s =
     bindE (need (v_desc_df s)) (\<lambda>d.
     bindE (set_index d c) (\<lambda>d'. Inr (s\<lparr>v_desc_df := Some d'\<rparr>)))"
| "exec L (NutrIloc k) s =
     bindE (need (v_df s)) (\<lambda>d. Inr (s\<lparr>v_nutr_df := Some (iloc_drop_last d k)\<rparr>))"
| "exec L (NutrDrop names) s =
     bindE (need (v_nutr_df s)) (\<lambda>d.
     bindE (drop_columns d names) (\<lambda>d'. Inr (s\<lparr>v_nutr_df := Some d'\<rparr>)))"
| "exec L PlusOne s =
     bindE (need (v_nutr_df s)) (\<lambda>d.
     bindE (plus_one d) (\<lambda>d'. Inr (s\<lparr>v_nutr_df := Some d'\<rparr>)))"
| "exec L BoxCoxLoop s =
     bindE (need (v_nutr_df s)) (\<lambda>d.
     bindE (boxcox_loop L d) (\<lambda>t. Inr (s\<lparr>v_nutr_df_TF := Some (Frame t)\<rparr>)))"
| "exec L Scale s =
     bindE (need (v_nutr_df_TF s)) (\<lambda>x.
     bindE (scaler_fit_transform L x) (\<lambda>a. Inr (s\<lparr>v_nutr_df_TF := Some (Array a)\<rparr>)))"
| "exec L PcaFit s =
     bindE (need (v_nutr_df_TF s)) (\<lambda>x.
     bindE (pca_fit_transform L x) (\<lambda>res.
     Inr (s\<lparr>v_fit := Some (fst res), v_pca := Some (snd res)\<rparr>)))"
| "exec L (PcaDf k) s =
     bindE (need (v_pca s)) (\<lambda>a.
     bindE (need (v_df s)) (\<lambda>d.
     bindE (frame_of_array (map (take k) a) (index d)) (\<lambda>p. Inr (s\<lparr>v_pca_df := Some p\<rparr>))))"
| "exec L PcaJoin s =
     bindE (need (v_pca_df s)) (\<lambda>p.
     bindE (need (v_desc_df s)) (\<lambda>d.
     bindE (join p d) (\<lambda>p'. Inr (s\<lparr>v_pca_df := Some p'\<rparr>))))"
| "exec L (PcaDrop names) s =
     bindE (need (v_pca_df s)) (\<lambda>p.
     bindE (drop_columns p names) (\<lambda>p'. Inr (s\<lparr>v_pca_df := Some p'\<rparr>)))"
| "exec L (PcaRename m) s =
     bindE (need (v_pca_df s)) (\<lambda>p. Inr (s\<lparr>v_pca_df := Some (rename_columns p m)\<rparr>))"
| "exec L (Vects k) s =
     bindE (need (v_fit s)) (\<lambda>f. Inr (s\<lparr>v_vects := Some (take k (components f))\<rparr>))"
| "exec L (AssignC1 i) s =
     bindE (need (v_vects s)) (\<lambda>vs.
     bindE (need (v_nutr_df s)) (\<lambda>d.
     bindE (series_of_row vs i (columns d)) (\<lambda>c. Inr (s\<lparr>v_c1 := Some c\<rparr>))))"
| "exec L (AssignC2 i) s =
     bindE (need (v_vects s)) (\<lambda>vs.
     bindE (need (v_nutr_df s)) (\<lambda>d.
     bindE (series_of_row vs i (columns d)) (\<lambda>c. Inr (s\<lparr>v_c2 := Some c\<rparr>))))"
| "exec L (CountsBy c col k) s =
     bindE (need (v_pca_df s)) (\<lambda>p.
     bindE (top_counts p c col k) (\<lambda>counts. Inr s))"
| "exec L (ColumnCounts col) s =
     bindE (need (v_df s)) (\<lambda>d.
     bindE (loc_col d col) (\<lambda>vs. Inr s))"

text \<open>Cells run top to bottom; an exception ends the run.\<close>

fun run :: "library \<Rightarrow> stmt list \<Rightarrow> env \<Rightarrow> error + env" where
  "run L [] s = Inr s"
| "run L (c # cs) s = bindE (exec L c s) (run L cs)"

section \<open>The notebook\<close>

text \<open>
  The statements of the code cells in the order of the file, section by section. The
  exercise cells are empty in the file and contribute no statement: what a markdown cell
  gives as their solution (\<^verbatim>\<open>df = df.dropna()\<close>,
  \<^verbatim>\<open>nutr_df.set_index('NDB_No', inplace=True)\<close>, the printed standard deviation) is
  text for the reader, not code that runs.
\<close>

abbreviation NDB_No :: colname where "NDB_No \<equiv> ColName ''NDB_No''"
abbreviation FoodGroup :: colname where "FoodGroup \<equiv> ColName ''FoodGroup''"
abbreviation Shrt_Desc :: colname where "Shrt_Desc \<equiv> ColName ''Shrt_Desc''"
abbreviation Folate_DFE :: colname where
  "Folate_DFE \<equiv> ColName (''Folate_DFE_('' @ CHR 0xB5 # ''g)'')"
abbreviation Vit_A_RAE :: colname where "Vit_A_RAE \<equiv> ColName ''Vit_A_RAE''"
abbreviation Vit_D_IU :: colname where "Vit_D_IU \<equiv> ColName ''Vit_D_IU''"

definition csv_path :: string where
  "csv_path = ''Data/USDA-nndb-combined.csv''"

definition csv_encoding :: string where
  "csv_encoding = ''latin_1''"

definition desc_positions :: "nat list" where
  "desc_positions = [0, 1, 2] @ [50..<54]"

definition import_cells :: "stmt list" where
  "import_cells = [ReadCsv csv_path csv_encoding, Show Vdf]"

definition null_cells :: "stmt list" where
  "null_cells = [Show Vdf]"

definition split_cells :: "stmt list" where
  "split_cells =
     [DescIloc desc_positions, DescSetIndex NDB_No, Show Vdesc_df,
      NutrIloc 5, Show Vnutr_df,
      NutrDrop [FoodGroup, Shrt_Desc],
      Show Vnutr_df]"

definition corr_cells :: "stmt list" where
  "corr_cells = [NutrDrop [Folate_DFE, Vit_A_RAE, Vit_D_IU], Show Vnutr_df]"

definition normalize_cells :: "stmt list" where
  "normalize_cells =
     [Show Vnutr_df, PlusOne, BoxCoxLoop, Show Vnutr_df_TF, Scale, Show Vnutr_df_TF]"

definition pca_cells :: "stmt list" where
  "pca_cells = [PcaFit, Show Vfit, Show Vfit, Show Vfit, Show Vfit]"

definition component_cells :: "stmt list" where
  "component_cells =
     [PcaDf 5, Show Vpca_df,
      PcaJoin,
      PcaDrop [ColName ''Shrt_Desc'', ColName ''GmWt_Desc1'', ColName ''GmWt_2'',
               ColName ''GmWt_Desc2'', ColName ''Refuse_Pct''],
      PcaRename [(ColIdx 0, ColName ''c1''), (ColIdx 1, ColName ''c2''),
                 (ColIdx 2, ColName ''c3''), (ColIdx 3, ColName ''c4''),
                 (ColIdx 4, ColName ''c5'')],
      Show Vpca_df, Show Vpca_df]"

definition interpret_cells :: "stmt list" where
  "interpret_cells =
     [Vects 5, AssignC1 0, Show Vc1, AssignC2 1, Show Vc2,
      CountsBy (ColName ''c1'') FoodGroup 500,
      CountsBy (ColName ''c2'') FoodGroup 500,
      ColumnCounts FoodGroup]"

definition notebook :: "stmt list" where
  "notebook =
     import_cells @ null_cells @ split_cells @ corr_cells @ normalize_cells @
     pca_cells @ component_cells @ interpret_cells"

section \<open>A small data set and library\<close>

text \<open>
  A table with the 54 columns the notebook addresses by position and by name and three
  rows, the second with two missing values, and a library whose routines are simple
  enough to run: the Box-Cox transform with exponent 1 (a missing value counting as 0),
  a scaler and a decomposition that return the values they are given.
\<close>

definition sample_columns :: "colname list" where
  "sample_columns =
     [NDB_No, FoodGroup, Shrt_Desc, Folate_DFE, Vit_A_RAE, Vit_D_IU] @
     map (\<lambda>j. ColName (''Nutrient_'' @ string_of_nat j)) [6..<49] @
     [ColName ''GmWt_1'', ColName ''GmWt_Desc1'', ColName ''GmWt_2'',
      ColName ''GmWt_Desc2'', ColName ''Refuse_Pct'']"

definition sample_values :: "colname \<Rightarrow> cell list" where
  "sample_values c =
     (if c = NDB_No then [I64 1001, I64 1002, I64 1003]
      else if c = FoodGroup then [Str ''Dairy'', Str ''Dairy'', Str ''Spices'']
      else if c \<in> set [Shrt_Desc, ColName ''GmWt_Desc1'', ColName ''GmWt_Desc2'']
      then [Str ''a'', Str ''b'', Str ''c'']
      else if c = Vit_A_RAE then [Num 0, NaN, Num 2]
      else if c = ColName ''Nutrient_7'' then [Num 2, NaN, Num 4]
      else [Num 0, Num 1, Num 5])"

definition sample_csv :: dataframe where
  "sample_csv =
     \<lparr>index = [I64 0, I64 1, I64 2],
      cols = map (\<lambda>c. (c, sample_values c)) sample_columns\<rparr>"

fun values_of :: "pyval \<Rightarrow> real list list" where
  "values_of (Array a) = a"
| "values_of (Frame d) =
     map (\<lambda>i. map (\<lambda>cv. num_of (snd cv ! i)) (cols d)) [0..<length (index d)]"

definition sample_lib :: library where
  "sample_lib =
     \<lparr>read_csv = (\<lambda>p e. if p = csv_path \<and> e = csv_encoding then Inr sample_csv
                         else Inl (LibraryError ''FileNotFoundError'')),
      boxcox_fit = (\<lambda>xs. Inr (map (\<lambda>c. num_of c - 1) xs, 1)),
      scaler_fit_transform = (\<lambda>x. Inr (values_of x)),
      pca_fit_transform = (\<lambda>x. Inr
         (\<lparr>explained_variance_ratio = replicate (ncols (values_of x)) 0,
           components = map (\<lambda>i. map (\<lambda>j. if i = j then 1 else 0) [0..<ncols (values_of x)])
                            [0..<ncols (values_of x)]\<rparr>,
          values_of x))\<rparr>"




text \<open>Header names, as opposed to positional labels.\<close>

fun is_name :: "colname \<Rightarrow> bool" where
  "is_name (ColName s) = True"
| "is_name c = False"

section \<open>The data path as the specification words it\<close>

text \<open>
  The specification summarises the notebook as
  "read CSV, drop rows, drop columns, transform, scale, decompose, plot, inspect".
  \<open>data_path\<close> is that chain written as one composition, each stage applied to the
  result of the stage before it, without the stage that drops rows, which no code cell
  performs; it is compared with the cell-by-cell run below.
\<close>

definition describe :: "dataframe \<Rightarrow> error + dataframe" where
  "describe df = bindE (iloc_cols df desc_positions) (\<lambda>d. set_index d NDB_No)"

definition nutrients :: "dataframe \<Rightarrow> error + dataframe" where
  "nutrients df =
     bindE (drop_columns (iloc_drop_last df 5) [FoodGroup, Shrt_Desc]) (\<lambda>d.
     drop_columns d [Folate_DFE, Vit_A_RAE, Vit_D_IU])"

definition transform :: "library \<Rightarrow> dataframe \<Rightarrow> error + dataframe \<times> dataframe" where
  "transform L nutr =
     bindE (plus_one nutr) (\<lambda>shifted.
     bindE (boxcox_loop L shifted) (\<lambda>tf. Inr (shifted, tf)))"

record findings =
  f_pca_df :: dataframe
  f_vects :: "real list list"
  f_c1 :: "(colname \<times> real) list"
  f_c2 :: "(colname \<times> real) list"

definition inspect ::
  "dataframe \<Rightarrow> dataframe \<Rightarrow> dataframe \<Rightarrow> fitted \<Rightarrow> real list list \<Rightarrow> error + findings" where
  "inspect df desc nutr fit scores =
     bindE (frame_of_array (map (take 5) scores) (index df)) (\<lambda>p0.
     bindE (join p0 desc) (\<lambda>j.
     bindE (drop_columns j [ColName ''Shrt_Desc'', ColName ''GmWt_Desc1'', ColName ''GmWt_2'',
                            ColName ''GmWt_Desc2'', ColName ''Refuse_Pct'']) (\<lambda>j'.
     bindE (series_of_row (take 5 (components fit)) 0 (columns nutr)) (\<lambda>c1.
     bindE (series_of_row (take 5 (components fit)) 1 (columns nutr)) (\<lambda>c2.
     bindE (top_counts
              (rename_columns j'
                 [(ColIdx 0, ColName ''c1''), (ColIdx 1, ColName ''c2''),
                  (ColIdx 2, ColName ''c3''), (ColIdx 3, ColName ''c4''),
                  (ColIdx 4, ColName ''c5'')])
              (ColName ''c1'') FoodGroup 500) (\<lambda>n1.
     bindE (top_counts
              (rename_columns j'
                 [(ColIdx 0, ColName ''c1''), (ColIdx 1, ColName ''c2''),
                  (ColIdx 2, ColName ''c3''), (ColIdx 3, ColName ''c4''),
                  (ColIdx 4, ColName ''c5'')])
              (ColName ''c2'') FoodGroup 500) (\<lambda>n2.
     bindE (loc_col df FoodGroup) (\<lambda>groups.
     Inr \<lparr>f_pca_df =
            rename_columns j'
              [(ColIdx 0, ColName ''c1''), (ColIdx 1, ColName ''c2''),
               (ColIdx 2, ColName ''c3''), (ColIdx 3, ColName ''c4''),
               (ColIdx 4, ColName ''c5'')],
          f_vects = take 5 (components fit), f_c1 = c1, f_c2 = c2\<rparr>))))))))"

definition data_path :: "library \<Rightarrow> error + env" where
  "data_path L =
     bindE (read_csv L csv_path csv_encoding) (\<lambda>raw.
     bindE (describe raw) (\<lambda>desc.
     bindE (nutrients raw) (\<lambda>nutr.
     bindE (transform L nutr) (\<lambda>t.
     bindE (scaler_fit_transform L (Frame (snd t))) (\<lambda>arr.
     bindE (pca_fit_transform L (Array arr)) (\<lambda>res.
     bindE (inspect raw desc (fst t) (fst res) (snd res)) (\<lambda>found.
     Inr \<lparr>v_df = Some raw, v_desc_df = Some desc, v_nutr_df = Some (fst t),
          v_nutr_df_TF = Some (Array arr), v_fit = Some (fst res), v_pca = Some (snd res),
          v_pca_df = Some (f_pca_df found), v_vects = Some (f_vects found),
          v_c1 = Some (f_c1 found), v_c2 = Some (f_c2 found)\<rparr>)))))))"

text \<open>The stage of the chain a statement belongs to. A statement that only displays
  or plots a variable is a \<open>Display\<close>, whatever the variable.\<close>

datatype stage =
    ReadStage | DropColumns | Transform | Standardize | Decompose | Inspect | Display

fun stage_of :: "stmt \<Rightarrow> stage" where
  "stage_of (ReadCsv path enc) = ReadStage"
| "stage_of (DescIloc js) = DropColumns"
| "stage_of (DescSetIndex c) = DropColumns"
| "stage_of (NutrIloc k) = DropColumns"
| "stage_of (NutrDrop names) = DropColumns"
| "stage_of PlusOne = Transform"
| "stage_of BoxCoxLoop = Transform"
| "stage_of Scale = Standardize"
| "stage_of PcaFit = Decompose"
| "stage_of (Show x) = Display"
| "stage_of c = Inspect"

fun is_read :: "stmt \<Rightarrow> bool" where
  "is_read (ReadCsv path enc) = True"
| "is_read c = False"

text \<open>
  Variants of the sample run: a file whose \<^verbatim>\<open>Vit_D_IU\<close> column has another name, a
  file that does not exist, a state in which \<^verbatim>\<open>nutr_df\<close> holds a zero, and one in
  which it holds the largest \<^verbatim>\<open>int64\<close>.
\<close>

definition renamed_column_lib :: library where
  "renamed_column_lib =
     sample_lib\<lparr>read_csv :=
       (\<lambda>p e. Inr (rename_columns sample_csv [(Vit_D_IU, ColName ''Vit_D'')]))\<rparr>"






definition two_columns :: dataframe where
  "two_columns =
     \<lparr>index = [I64 0, I64 1],
      cols = [(NDB_No, [I64 1002, I64 1003]), (ColName ''Water_(g)'', [Num 1, Num 4])]\<rparr>"

section \<open>Basic facts\<close>

lemma bindE_Inl [simp]: "bindE (Inl e) f = Inl e"
  by (simp add: bindE_def)

lemma bindE_Inr [simp]: "bindE (Inr x) f = f x"
  by (simp add: bindE_def)

lemma bindE_assoc: "bindE (bindE m f) g = bindE m (\<lambda>x. bindE (f x) g)"
  by (cases m) simp_all

lemma bindE_eq_Inr: "bindE m f = Inr y \<longleftrightarrow> (\<exists>x. m = Inr x \<and> f x = Inr y)"
  by (cases m) simp_all

lemma not_isl_Inr: "\<not> isl m \<Longrightarrow> \<exists>x. m = Inr x"
  by (cases m) simp_all

lemma need_eq_Inr: "need x = Inr y \<longleftrightarrow> x = Some y"
  by (cases x) auto

lemma run_append: "run L (a @ b) s = bindE (run L a s) (run L b)"
proof (induction a arbitrary: s)
  case Nil
  show ?case by simp
next
  case (Cons c cs)
  have "run L (cs @ b) = (\<lambda>x. bindE (run L cs x) (run L b))"
    by (rule ext) (rule Cons.IH)
  then show ?case by (simp add: bindE_assoc)
qed

lemma run_prefix_ok:
  assumes "run L (a @ b) s = Inr s'"
  shows "\<exists>s1. run L a s = Inr s1 \<and> run L b s1 = Inr s'"
  using assms by (simp add: run_append bindE_eq_Inr)

lemma lookup_sublist:
  assumes "distinct (map fst xs)" and "set ys \<subseteq> set xs" and "c \<in> fst ` set ys"
  shows "map_of ys c = map_of xs c"
proof -
  from assms(3) obtain v where "map_of ys c = Some v"
    by (metis map_of_eq_None_iff not_Some_eq)
  then have "(c, v) \<in> set ys" by (rule map_of_SomeD)
  with assms(2) have "(c, v) \<in> set xs" by blast
  with assms(1) have "map_of xs c = Some v" by simp
  with \<open>map_of ys c = Some v\<close> show ?thesis by simp
qed

lemma loc_col_sub:
  assumes "distinct (columns d)" and "set (cols d') \<subseteq> set (cols d)" and "c \<in> set (columns d')"
  shows "loc_col d' c = loc_col d c"
  using lookup_sublist[of "cols d" "cols d'" c] assms
  by (simp add: loc_col_def columns_def)

lemma set_index_Inr:
  assumes "set_index d c = Inr d'"
  shows "map_of (cols d) c = Some (index d') \<and> set (cols d') \<subseteq> set (cols d)"
  using assms by (auto simp: set_index_def split: option.splits)

lemma iloc_cols_Inr:
  assumes "iloc_cols d js = Inr d'"
  shows "index d' = index d \<and> set (cols d') \<subseteq> set (cols d)"
  using assms by (auto simp: iloc_cols_def list_all_iff split: if_splits)

lemma drop_columns_Inr:
  assumes "drop_columns d names = Inr d'"
  shows "index d' = index d \<and> set (cols d') \<subseteq> set (cols d) \<and> set names \<subseteq> set (columns d)"
  using assms by (auto simp: drop_columns_def list_all_iff split: if_splits)

lemma iloc_drop_last_sub:
  "index (iloc_drop_last d k) = index d \<and> set (cols (iloc_drop_last d k)) \<subseteq> set (cols d)"
  by (auto simp: iloc_drop_last_def dest: in_set_takeD)

lemma column_length:
  assumes "wf_frame d" and "map_of (cols d) c = Some vs"
  shows "length vs = length (index d)"
proof -
  from assms(2) have "(c, vs) \<in> set (cols d)" by (rule map_of_SomeD)
  with assms(1) show ?thesis by (auto simp: wf_frame_def list_all_iff)
qed

lemma sample_wf: "wf_frame sample_csv"
  by code_simp

section \<open>Splitting off the descriptive columns\<close>

lemma columns_iloc_cols:
  assumes "iloc_cols d js = Inr d'"
  shows "columns d' = map (nth (columns d)) js"
proof -
  from assms have r: "\<forall>j \<in> set js. j < length (cols d)" and c: "cols d' = map (nth (cols d)) js"
    by (auto simp: iloc_cols_def list_all_iff split: if_splits)
  from r show ?thesis by (simp add: c columns_def)
qed

lemma columns_set_index:
  assumes "set_index d c = Inr d'"
  shows "columns d' = filter (\<lambda>x. x \<noteq> c) (columns d)"
  using assms by (auto simp: set_index_def columns_def filter_map comp_def split: option.splits)

lemma columns_drop_columns:
  assumes "drop_columns d names = Inr d'"
  shows "columns d' = filter (\<lambda>x. x \<notin> set names) (columns d)"
  using assms by (auto simp: drop_columns_def columns_def filter_map comp_def split: if_splits)

lemma columns_iloc_drop_last:
  "columns (iloc_drop_last d k) = take (length (columns d) - k) (columns d)"
  by (simp add: iloc_drop_last_def columns_def take_map)

text \<open>
  Claim C10, as amended. The cells under "Split off descriptive columns" build
  \<^verbatim>\<open>desc_df\<close> from the columns of \<^verbatim>\<open>df\<close> at positions 0-2 and 50-53 and index it
  by \<^verbatim>\<open>NDB_No\<close>; they build \<^verbatim>\<open>nutr_df\<close> from all but the last five columns
  without \<^verbatim>\<open>FoodGroup\<close> and \<^verbatim>\<open>Shrt_Desc\<close>, and no code cell re-indexes it. Run
  on a well-formed table \<open>d\<close>, they leave \<open>d\<close> as it is; both tables have one row for
  each row of \<open>d\<close>, and every column they keep holds the values of the same column of
  \<open>d\<close> in the same order. \<^verbatim>\<open>desc_df\<close> is labelled by the \<^verbatim>\<open>NDB_No\<close> column of
  \<open>d\<close>; \<^verbatim>\<open>nutr_df\<close> keeps the row labels of \<open>d\<close>, and where it keeps \<^verbatim>\<open>NDB_No\<close>
  as a column, that column is the label sequence of \<^verbatim>\<open>desc_df\<close>.
\<close>

theorem split_preserves_rows:
  assumes wf: "wf_frame d" and df: "v_df s = Some d"
    and run: "run L split_cells s = Inr s'"
  shows "\<exists>desc nutr.
      v_df s' = Some d \<and> v_desc_df s' = Some desc \<and> v_nutr_df s' = Some nutr \<and>
      columns desc = filter (\<lambda>c. c \<noteq> NDB_No) (map (nth (columns d)) [0, 1, 2, 50, 51, 52, 53]) \<and>
      columns nutr =
        filter (\<lambda>c. c \<notin> {FoodGroup, Shrt_Desc}) (take (length (columns d) - 5) (columns d)) \<and>
      length (index desc) = length (index d) \<and> loc_col d NDB_No = Inr (index desc) \<and>
      index nutr = index d \<and>
      (NDB_No \<in> set (columns nutr) \<longrightarrow> loc_col nutr NDB_No = Inr (index desc)) \<and>
      (\<forall>c \<in> set (columns desc). loc_col desc c = loc_col d c) \<and>
      (\<forall>c \<in> set (columns nutr). loc_col nutr c = loc_col d c)"
proof -
  from run df obtain d1 desc nutr where
    steps: "iloc_cols d desc_positions = Inr d1" "set_index d1 NDB_No = Inr desc"
      "drop_columns (iloc_drop_last d 5) [FoodGroup, Shrt_Desc] = Inr nutr"
    and vars: "v_df s' = Some d" "v_desc_df s' = Some desc" "v_nutr_df s' = Some nutr"
    by (auto simp: split_cells_def bindE_eq_Inr need_eq_Inr split: if_splits)
  from wf have dist: "distinct (map fst (cols d))" by (simp add: wf_frame_def columns_def)
  have sub_d1: "set (cols d1) \<subseteq> set (cols d)"
    using iloc_cols_Inr[OF steps(1)] by simp
  have sub_desc: "set (cols desc) \<subseteq> set (cols d)"
    using set_index_Inr[OF steps(2)] sub_d1 by blast
  have sub_nutr: "set (cols nutr) \<subseteq> set (cols d)"
    using drop_columns_Inr[OF steps(3)] iloc_drop_last_sub[of d 5] by blast
  have key_desc: "map_of (cols d1) NDB_No = Some (index desc)"
    using set_index_Inr[OF steps(2)] by simp
  have "(NDB_No, index desc) \<in> set (cols d)"
    using map_of_SomeD[OF key_desc] sub_d1 by blast
  with dist have in_desc: "map_of (cols d) NDB_No = Some (index desc)" by simp
  then have key: "loc_col d NDB_No = Inr (index desc)" by (simp add: loc_col_def)
  have len: "length (index desc) = length (index d)"
    using column_length[OF wf in_desc] .
  have idx: "index nutr = index d"
    using drop_columns_Inr[OF steps(3)] iloc_drop_last_sub[of d 5] by simp
  have cd: "columns desc =
      filter (\<lambda>c. c \<noteq> NDB_No) (map (nth (columns d)) [0, 1, 2, 50, 51, 52, 53])"
    using columns_set_index[OF steps(2)] columns_iloc_cols[OF steps(1)]
    by (simp add: desc_positions_def upt_rec)
  have cn: "columns nutr =
      filter (\<lambda>c. c \<notin> {FoodGroup, Shrt_Desc}) (take (length (columns d) - 5) (columns d))"
    using columns_drop_columns[OF steps(3)] by (simp add: columns_iloc_drop_last)
  have col_desc: "\<forall>c \<in> set (columns desc). loc_col desc c = loc_col d c"
    using loc_col_sub[of d desc] wf sub_desc by (simp add: wf_frame_def)
  have col_nutr: "\<forall>c \<in> set (columns nutr). loc_col nutr c = loc_col d c"
    using loc_col_sub[of d nutr] wf sub_nutr by (simp add: wf_frame_def)
  from col_nutr key
  have kept: "NDB_No \<in> set (columns nutr) \<longrightarrow> loc_col nutr NDB_No = Inr (index desc)"
    by simp
  from vars cd cn len key idx kept col_desc col_nutr show ?thesis by blast
qed

lemma sample_split:
  "(case run sample_lib split_cells (empty_env\<lparr>v_df := Some sample_csv\<rparr>) of
      Inl e \<Rightarrow> False
    | Inr s' \<Rightarrow>
        map_option index (v_desc_df s') = Some [I64 1001, I64 1002, I64 1003] \<and>
        map_option index (v_nutr_df s') = Some [I64 0, I64 1, I64 2] \<and>
        map_option columns (v_desc_df s') =
          Some [FoodGroup, Shrt_Desc, ColName ''GmWt_Desc1'', ColName ''GmWt_2'',
                ColName ''GmWt_Desc2'', ColName ''Refuse_Pct''] \<and>
        map_option (\<lambda>d. loc_col d NDB_No) (v_nutr_df s') =
          Some (Inr [I64 1001, I64 1002, I64 1003]) \<and>
        map_option (\<lambda>d. loc_col d (ColName ''GmWt_2'')) (v_desc_df s') =
          Some (Inr [Num 0, Num 1, Num 5]))"
  by code_simp

theorem split_preserves_rows_witness:
  "\<exists>s' desc nutr.
     run sample_lib split_cells (empty_env\<lparr>v_df := Some sample_csv\<rparr>) = Inr s' \<and>
     v_desc_df s' = Some desc \<and> v_nutr_df s' = Some nutr \<and>
     index desc = [I64 1001, I64 1002, I64 1003] \<and> index nutr = index sample_csv \<and>
     columns desc =
       [FoodGroup, Shrt_Desc, ColName ''GmWt_Desc1'', ColName ''GmWt_2'',
        ColName ''GmWt_Desc2'', ColName ''Refuse_Pct''] \<and>
     loc_col nutr NDB_No = Inr [I64 1001, I64 1002, I64 1003] \<and>
     loc_col desc (ColName ''GmWt_2'') = Inr [Num 0, Num 1, Num 5] \<and>
     loc_col sample_csv (ColName ''GmWt_2'') = Inr [Num 0, Num 1, Num 5]"
proof -
  from sample_split obtain s' where
    r: "run sample_lib split_cells (empty_env\<lparr>v_df := Some sample_csv\<rparr>) = Inr s'"
    and e: "map_option index (v_desc_df s') = Some [I64 1001, I64 1002, I64 1003]"
      "map_option columns (v_desc_df s') =
          Some [FoodGroup, Shrt_Desc, ColName ''GmWt_Desc1'', ColName ''GmWt_2'',
                ColName ''GmWt_Desc2'', ColName ''Refuse_Pct'']"
      "map_option (\<lambda>d. loc_col d NDB_No) (v_nutr_df s') =
          Some (Inr [I64 1001, I64 1002, I64 1003])"
      "map_option (\<lambda>d. loc_col d (ColName ''GmWt_2'')) (v_desc_df s') =
          Some (Inr [Num 0, Num 1, Num 5])"
    by (auto split: sum.splits)
  have v: "v_df (empty_env\<lparr>v_df := Some sample_csv\<rparr>) = Some sample_csv"
    by simp
  from split_preserves_rows[OF sample_wf v r] obtain desc nutr where
    f: "v_desc_df s' = Some desc" "v_nutr_df s' = Some nutr" "index nutr = index sample_csv"
       "\<forall>c \<in> set (columns desc). loc_col desc c = loc_col sample_csv c"
    by blast
  from e f have g: "index desc = [I64 1001, I64 1002, I64 1003]"
    "columns desc =
       [FoodGroup, Shrt_Desc, ColName ''GmWt_Desc1'', ColName ''GmWt_2'',
        ColName ''GmWt_Desc2'', ColName ''Refuse_Pct'']"
    "loc_col nutr NDB_No = Inr [I64 1001, I64 1002, I64 1003]"
    "loc_col desc (ColName ''GmWt_2'') = Inr [Num 0, Num 1, Num 5]"
    by simp_all
  from f(4) g(2,4) have "loc_col sample_csv (ColName ''GmWt_2'') = Inr [Num 0, Num 1, Num 5]"
    by simp
  with r f g show ?thesis by blast
qed

text \<open>
  Claim C10 as first stated has both tables indexed by the same sequence of
  \<^verbatim>\<open>NDB_No\<close> values. On the sample file the cells leave \<^verbatim>\<open>desc_df\<close> labelled
  1001, 1002, 1003 and \<^verbatim>\<open>nutr_df\<close> labelled 0, 1, 2: the code cell that would
  re-index \<^verbatim>\<open>nutr_df\<close> is empty.
\<close>

theorem same_index_counterexample:
  "\<not> isl (run sample_lib (import_cells @ null_cells @ split_cells) empty_env) \<and>
   map_option index
     (v_desc_df (projr (run sample_lib (import_cells @ null_cells @ split_cells) empty_env))) =
     Some [I64 1001, I64 1002, I64 1003] \<and>
   map_option index
     (v_nutr_df (projr (run sample_lib (import_cells @ null_cells @ split_cells) empty_env))) =
     Some [I64 0, I64 1, I64 2]"
  by code_simp

section \<open>Shifting the data before the transform\<close>

lemma map_of_map_values:
  "map_of (map (\<lambda>cv. (fst cv, f (snd cv))) xs) k = map_option f (map_of xs k)"
  by (induction xs) auto









section \<open>The transform loop\<close>

lemma format_TF_names:
  assumes "distinct cs" and "list_all is_name cs"
  shows "distinct (map format_TF cs)"
proof -
  have "inj_on format_TF (set cs)"
  proof (rule inj_onI)
    fix a b assume a: "a \<in> set cs" and b: "b \<in> set cs" and e: "format_TF a = format_TF b"
    from a b assms(2) obtain x y where "a = ColName x" "b = ColName y"
      by (metis is_name.elims(2) list_all_iff)
    with e show "a = b" by (simp add: format_TF_def)
  qed
  with assms(1) show ?thesis by (simp add: distinct_map)
qed

lemma loc_col_append_new:
  assumes "c \<in> set (columns acc)"
  shows "loc_col (acc\<lparr>cols := cols acc @ [(k, v)]\<rparr>) c = loc_col acc c"
proof -
  from assms obtain w where "map_of (cols acc) c = Some w"
    by (metis columns_def map_of_eq_None_iff not_Some_eq set_map)
  then show ?thesis by (simp add: loc_col_def map_add_def)
qed

lemma loc_col_append_fresh:
  assumes "k \<notin> set (columns acc)"
  shows "loc_col (acc\<lparr>cols := cols acc @ [(k, v)]\<rparr>) k = Inr v"
proof -
  from assms have "map_of (cols acc) k = None"
    by (simp add: columns_def map_of_eq_None_iff)
  then show ?thesis by (simp add: loc_col_def map_add_def)
qed

lemma boxcox_cols_Inr:
  assumes "boxcox_cols L src cs acc = Inr out"
    and "distinct (columns acc @ map format_TF cs)"
  shows "index out = index acc \<and> columns out = columns acc @ map format_TF cs \<and>
         (\<forall>c \<in> set (columns acc). loc_col out c = loc_col acc c) \<and>
         (\<forall>col \<in> set cs. \<exists>xs res. loc_col src col = Inr xs \<and> boxcox L xs = Inr res \<and>
              loc_col out (format_TF col) = Inr (map Num (fst res)))"
  using assms
proof (induction cs arbitrary: acc)
  case Nil
  then show ?case by simp
next
  case (Cons col rest)
  from Cons.prems(1) obtain xs res acc' where
    x: "loc_col src col = Inr xs" and b: "boxcox L xs = Inr res"
    and a: "assign_column acc (format_TF col) (map Num (fst res)) = Inr acc'"
    and r: "boxcox_cols L src rest acc' = Inr out"
    by (auto simp: bindE_eq_Inr)
  from Cons.prems(2) have fresh: "format_TF col \<notin> set (columns acc)" by auto
  with a have acc': "acc' = acc\<lparr>cols := cols acc @ [(format_TF col, map Num (fst res))]\<rparr>"
    by (auto simp: assign_column_def split: if_splits)
  then have cols': "columns acc' = columns acc @ [format_TF col]" and idx: "index acc' = index acc"
    by (simp_all add: columns_def)
  from Cons.prems(2) cols' have d': "distinct (columns acc' @ map format_TF rest)" by simp
  note ih = Cons.IH[OF r d']
  have keep: "loc_col out c = loc_col acc c" if "c \<in> set (columns acc)" for c
  proof -
    from that cols' have "c \<in> set (columns acc')" by simp
    with ih have "loc_col out c = loc_col acc' c" by blast
    also have "\<dots> = loc_col acc c" unfolding acc' using that by (rule loc_col_append_new)
    finally show ?thesis .
  qed
  have here: "loc_col out (format_TF col) = Inr (map Num (fst res))"
  proof -
    from cols' have "format_TF col \<in> set (columns acc')" by simp
    with ih have "loc_col out (format_TF col) = loc_col acc' (format_TF col)" by blast
    also have "\<dots> = Inr (map Num (fst res))"
      unfolding acc' using fresh by (rule loc_col_append_fresh)
    finally show ?thesis .
  qed
  have cur: "\<exists>xs res. loc_col src col = Inr xs \<and> boxcox L xs = Inr res \<and>
              loc_col out (format_TF col) = Inr (map Num (fst res))"
    using x b here by blast
  have others: "\<forall>c \<in> set rest. \<exists>xs res. loc_col src c = Inr xs \<and> boxcox L xs = Inr res \<and>
              loc_col out (format_TF c) = Inr (map Num (fst res))"
    using ih by blast
  have every: "\<forall>c \<in> set (col # rest). \<exists>xs res. loc_col src c = Inr xs \<and>
              boxcox L xs = Inr res \<and> loc_col out (format_TF c) = Inr (map Num (fst res))"
    using cur others by (metis set_ConsD)
  have i: "index out = index acc" using ih idx by simp
  have c: "columns out = columns acc @ map format_TF (col # rest)" using ih cols' by simp
  from i c keep every show ?case by blast
qed

lemma boxcox_cols_total:
  assumes "\<forall>col \<in> set cs. \<exists>xs res. loc_col src col = Inr xs \<and> boxcox L xs = Inr res \<and>
              length (fst res) = length (index acc)"
  shows "\<exists>out. boxcox_cols L src cs acc = Inr out"
  using assms
proof (induction cs arbitrary: acc)
  case Nil
  show ?case by simp
next
  case (Cons col rest)
  from Cons.prems obtain xs res where
    x: "loc_col src col = Inr xs" and b: "boxcox L xs = Inr res"
    and l: "length (fst res) = length (index acc)" by auto
  from l have "\<exists>acc'. assign_column acc (format_TF col) (map Num (fst res)) = Inr acc' \<and>
      index acc' = index acc"
    by (simp add: assign_column_def)
  then obtain acc' where
    a: "assign_column acc (format_TF col) (map Num (fst res)) = Inr acc'"
    and i: "index acc' = index acc"
    by blast
  from Cons.prems i have "\<forall>col \<in> set rest. \<exists>xs res. loc_col src col = Inr xs \<and>
      boxcox L xs = Inr res \<and> length (fst res) = length (index acc')" by simp
  from Cons.IH[OF this] x b a show ?case by simp
qed

text \<open>
  Claim C8. The transform cell works column by column. Let \<^verbatim>\<open>nutr_df\<close> hold a table
  \<open>src\<close> whose columns are distinct header names, as a table read from a CSV file has.
  If the cell succeeds, it assigns to \<^verbatim>\<open>nutr_df_TF\<close> a table with the row labels of
  \<open>src\<close> and exactly one column for each column of \<open>src\<close>, in the same order and
  without repetition: the column at the position of \<^verbatim>\<open>col\<close> is named \<^verbatim>\<open>col_TF\<close>
  (the name followed by the three characters \<^verbatim>\<open>_TF\<close>), and its values are the first
  component of \<^verbatim>\<open>boxcox\<close> applied to the column \<^verbatim>\<open>col\<close> alone. The cell succeeds
  whenever \<^verbatim>\<open>boxcox\<close> returns, for each column, an array with one value per row.
\<close>

theorem boxcox_loop_per_column:
  assumes var: "v_nutr_df s = Some src"
    and dist: "distinct (columns src)" and names: "list_all is_name (columns src)"
  shows "(\<forall>s'. exec L BoxCoxLoop s = Inr s' \<longrightarrow>
            (\<exists>out. s' = s\<lparr>v_nutr_df_TF := Some (Frame out)\<rparr> \<and>
               index out = index src \<and>
               length (columns out) = length (columns src) \<and>
               distinct (columns out) \<and>
               (\<forall>i n. i < length (columns src) \<and> columns src ! i = ColName n \<longrightarrow>
                   columns out ! i = ColName (n @ [CHR ''_'', CHR ''T'', CHR ''F''])) \<and>
               (\<forall>n. ColName n \<in> set (columns src) \<longrightarrow> (\<exists>xs res.
                   loc_col src (ColName n) = Inr xs \<and> boxcox L xs = Inr res \<and>
                   loc_col out (ColName (n @ [CHR ''_'', CHR ''T'', CHR ''F''])) =
                     Inr (map Num (fst res)))))) \<and>
         ((\<forall>col \<in> set (columns src). \<exists>xs res.
              loc_col src col = Inr xs \<and> boxcox L xs = Inr res \<and>
              length (fst res) = length (index src)) \<longrightarrow>
          (\<exists>s'. exec L BoxCoxLoop s = Inr s'))"
proof (intro conjI allI impI)
  fix s' assume e: "exec L BoxCoxLoop s = Inr s'"
  with var obtain out where
    l: "boxcox_cols L src (columns src) \<lparr>index = index src, cols = []\<rparr> = Inr out"
    and s': "s' = s\<lparr>v_nutr_df_TF := Some (Frame out)\<rparr>"
    by (auto simp: bindE_eq_Inr boxcox_loop_def)
  from format_TF_names[OF dist names]
  have d: "distinct (columns \<lparr>index = index src, cols = []\<rparr> @ map format_TF (columns src))"
    by (simp add: columns_def)
  note r = boxcox_cols_Inr[OF l d]
  from r have i: "index out = index src" by simp
  from r have c: "columns out = map format_TF (columns src)" by (simp add: columns_def)
  from c have len: "length (columns out) = length (columns src)" by simp
  from c format_TF_names[OF dist names] have dis: "distinct (columns out)" by simp
  have nm: "\<forall>i n. i < length (columns src) \<and> columns src ! i = ColName n \<longrightarrow>
              columns out ! i = ColName (n @ [CHR ''_'', CHR ''T'', CHR ''F''])"
    by (simp add: c format_TF_def)
  have vals: "\<forall>n. ColName n \<in> set (columns src) \<longrightarrow> (\<exists>xs res.
      loc_col src (ColName n) = Inr xs \<and> boxcox L xs = Inr res \<and>
      loc_col out (ColName (n @ [CHR ''_'', CHR ''T'', CHR ''F''])) = Inr (map Num (fst res)))"
  proof (intro allI impI)
    fix n assume "ColName n \<in> set (columns src)"
    with r obtain xs res where
      a: "loc_col src (ColName n) = Inr xs" and b: "boxcox L xs = Inr res"
      and o: "loc_col out (format_TF (ColName n)) = Inr (map Num (fst res))"
      by blast
    have f: "format_TF (ColName n) = ColName (n @ [CHR ''_'', CHR ''T'', CHR ''F''])"
      by (simp add: format_TF_def)
    from a b o[unfolded f]
    show "\<exists>xs res. loc_col src (ColName n) = Inr xs \<and> boxcox L xs = Inr res \<and>
      loc_col out (ColName (n @ [CHR ''_'', CHR ''T'', CHR ''F''])) = Inr (map Num (fst res))"
      by blast
  qed
  from s' i len dis nm vals
  show "\<exists>out. s' = s\<lparr>v_nutr_df_TF := Some (Frame out)\<rparr> \<and>
               index out = index src \<and>
               length (columns out) = length (columns src) \<and>
               distinct (columns out) \<and>
               (\<forall>i n. i < length (columns src) \<and> columns src ! i = ColName n \<longrightarrow>
                   columns out ! i = ColName (n @ [CHR ''_'', CHR ''T'', CHR ''F''])) \<and>
               (\<forall>n. ColName n \<in> set (columns src) \<longrightarrow> (\<exists>xs res.
                   loc_col src (ColName n) = Inr xs \<and> boxcox L xs = Inr res \<and>
                   loc_col out (ColName (n @ [CHR ''_'', CHR ''T'', CHR ''F''])) =
                     Inr (map Num (fst res))))"
    by blast
next
  assume "\<forall>col \<in> set (columns src). \<exists>xs res.
              loc_col src col = Inr xs \<and> boxcox L xs = Inr res \<and>
              length (fst res) = length (index src)"
  then have "\<forall>col \<in> set (columns src). \<exists>xs res.
              loc_col src col = Inr xs \<and> boxcox L xs = Inr res \<and>
              length (fst res) = length (index \<lparr>index = index src, cols = []\<rparr>)" by simp
  from boxcox_cols_total[OF this] var show "\<exists>s'. exec L BoxCoxLoop s = Inr s'"
    by (auto simp: boxcox_loop_def)
qed

lemma two_columns_transformed:
  "distinct (columns two_columns) \<and> list_all is_name (columns two_columns) \<and>
   exec sample_lib BoxCoxLoop (empty_env\<lparr>v_nutr_df := Some two_columns\<rparr>) =
     Inr (empty_env\<lparr>v_nutr_df := Some two_columns,
            v_nutr_df_TF := Some (Frame
              \<lparr>index = [I64 0, I64 1],
               cols = [(ColName ''NDB_No_TF'', [Num 1001, Num 1002]),
                       (ColName ''Water_(g)_TF'', [Num 0, Num 3])]\<rparr>)\<rparr>)"
  by code_simp

theorem boxcox_loop_per_column_witness:
  "v_nutr_df (empty_env\<lparr>v_nutr_df := Some two_columns\<rparr>) = Some two_columns \<and>
   distinct (columns two_columns) \<and> list_all is_name (columns two_columns) \<and>
   columns two_columns = [NDB_No, ColName ''Water_(g)''] \<and>
   loc_col two_columns (ColName ''Water_(g)'') = Inr [Num 1, Num 4] \<and>
   boxcox sample_lib [Num 1, Num 4] = Inr ([0, 3], 1) \<and>
   (\<exists>out.
      exec sample_lib BoxCoxLoop (empty_env\<lparr>v_nutr_df := Some two_columns\<rparr>) =
        Inr (empty_env\<lparr>v_nutr_df := Some two_columns, v_nutr_df_TF := Some (Frame out)\<rparr>) \<and>
      index out = [I64 0, I64 1] \<and>
      columns out = [ColName ''NDB_No_TF'', ColName ''Water_(g)_TF''] \<and>
      loc_col out (ColName ''Water_(g)_TF'') = Inr [Num 0, Num 3])"
proof -
  let ?s = "empty_env\<lparr>v_nutr_df := Some two_columns\<rparr>"
  let ?out = "\<lparr>index = [I64 0, I64 1],
               cols = [(ColName ''NDB_No_TF'', [Num 1001, Num 1002]),
                       (ColName ''Water_(g)_TF'', [Num 0, Num 3])]\<rparr>"
  have v: "v_nutr_df ?s = Some two_columns" by simp
  from two_columns_transformed have d: "distinct (columns two_columns)"
    and n: "list_all is_name (columns two_columns)"
    and e: "exec sample_lib BoxCoxLoop ?s =
        Inr (?s\<lparr>v_nutr_df_TF := Some (Frame ?out)\<rparr>)"
    by simp_all
  have c: "columns two_columns = [NDB_No, ColName ''Water_(g)'']"
    by (simp add: two_columns_def columns_def)
  have x: "loc_col two_columns (ColName ''Water_(g)'') = Inr [Num 1, Num 4]"
    by (simp add: two_columns_def loc_col_def)
  have b: "boxcox sample_lib [Num 1, Num 4] = Inr ([0, 3], 1)"
    by (simp add: boxcox_def sample_lib_def)
  from boxcox_loop_per_column[OF v d n, of sample_lib] e obtain out where
    o: "?s\<lparr>v_nutr_df_TF := Some (Frame ?out)\<rparr> = ?s\<lparr>v_nutr_df_TF := Some (Frame out)\<rparr>"
       "index out = index two_columns"
       "\<forall>i n. i < length (columns two_columns) \<and> columns two_columns ! i = ColName n \<longrightarrow>
           columns out ! i = ColName (n @ [CHR ''_'', CHR ''T'', CHR ''F''])"
       "length (columns out) = length (columns two_columns)"
       "\<forall>n. ColName n \<in> set (columns two_columns) \<longrightarrow> (\<exists>xs res.
           loc_col two_columns (ColName n) = Inr xs \<and> boxcox sample_lib xs = Inr res \<and>
           loc_col out (ColName (n @ [CHR ''_'', CHR ''T'', CHR ''F''])) =
             Inr (map Num (fst res)))"
    by blast
  from o(2) have i: "index out = [I64 0, I64 1]" by (simp add: two_columns_def)
  from o(3) c have "columns out ! 0 = ColName ''NDB_No_TF''"
    "columns out ! 1 = ColName ''Water_(g)_TF''" by simp_all
  moreover from o(4) c have "length (columns out) = 2" by simp
  ultimately have co: "columns out = [ColName ''NDB_No_TF'', ColName ''Water_(g)_TF'']"
    by (cases "columns out"; cases "tl (columns out)") auto
  from o(5) c x b have lo: "loc_col out (ColName ''Water_(g)_TF'') = Inr [Num 0, Num 3]"
    by auto
  from e o(1) have "exec sample_lib BoxCoxLoop ?s =
      Inr (?s\<lparr>v_nutr_df_TF := Some (Frame out)\<rparr>)" by simp
  with v d n c x b i co lo show ?thesis by blast
qed

section \<open>Joining the descriptive columns back\<close>

lemma matches_disjoint:
  assumes "label_key l \<notin> set (map label_key ri)"
  shows "matches l ri = []"
proof -
  have "label_key (ri ! k) \<noteq> label_key l" if "k < length ri" for k
  proof
    assume "label_key (ri ! k) = label_key l"
    with that have "label_key l \<in> set (map label_key ri)"
      by (metis image_eqI list.set_map nth_mem)
    with assms show False by simp
  qed
  then show ?thesis by (simp add: matches_def filter_empty_conv)
qed

lemma join_pairs_disjoint:
  assumes "set (map label_key li) \<inter> set (map label_key ri) = {}"
  shows "join_pairs li ri = map (\<lambda>i. (i, None)) [0..<length li]"
proof -
  have "matches (li ! i) ri = []" if "i < length li" for i
  proof (rule matches_disjoint)
    from that have "label_key (li ! i) \<in> set (map label_key li)" by simp
    with assms show "label_key (li ! i) \<notin> set (map label_key ri)" by blast
  qed
  then have h: "map (\<lambda>i. if matches (li ! i) ri = [] then [(i, None)]
                       else map (\<lambda>k. (i, Some k)) (matches (li ! i) ri)) [0..<length li]
           = map (\<lambda>i. [(i, None :: nat option)]) [0..<length li]"
    by (intro map_cong) auto
  show ?thesis
    by (simp only: join_pairs_def h concat_map_singleton)
qed

lemma join_disjoint:
  assumes j: "join l r = Inr j"
    and d: "set (map label_key (index l)) \<inter> set (map label_key (index r)) = {}"
  shows "index j = index l"
    and "cols j =
         map (\<lambda>cv. (fst cv, map (nth (snd cv)) [0..<length (index l)])) (cols l) @
         map (\<lambda>cv. (fst cv, replicate (length (index l)) NaN)) (cols r)"
    and "set (columns l) \<inter> set (columns r) = {}"
proof -
  from j have no: "\<not> list_ex (\<lambda>c. c \<in> set (columns l)) (columns r)"
    and je: "j = \<lparr>index = map (\<lambda>p. index l ! fst p) (join_pairs (index l) (index r)),
                cols =
                  map (\<lambda>cv. (fst cv, map (\<lambda>p. snd cv ! fst p) (join_pairs (index l) (index r))))
                      (cols l) @
                  map (\<lambda>cv. (fst cv, map (\<lambda>p. pick_right (snd cv) (snd p))
                                           (join_pairs (index l) (index r))))
                      (cols r)\<rparr>"
    by (auto simp: join_def split: if_splits)
  from no show "set (columns l) \<inter> set (columns r) = {}"
    by (auto simp: list_ex_iff)
  show "index j = index l"
    by (simp add: je join_pairs_disjoint[OF d] comp_def map_nth)
  show "cols j =
         map (\<lambda>cv. (fst cv, map (nth (snd cv)) [0..<length (index l)])) (cols l) @
         map (\<lambda>cv. (fst cv, replicate (length (index l)) NaN)) (cols r)"
    by (simp add: je join_pairs_disjoint[OF d] comp_def pick_right_def map_replicate_const)
qed

lemma set_insert_pos: "set (insert_pos keys i js) = insert i (set js)"
  by (induction js) auto

lemma set_sorted_positions: "set (sorted_positions keys) = {0..<length keys}"
proof -
  have "set (foldr (insert_pos keys) xs []) = set xs" for xs
    by (induction xs) (simp_all add: set_insert_pos)
  then show ?thesis by (simp add: sorted_positions_def)
qed

lemma value_counts_all_missing:
  assumes "\<forall>v \<in> set vs. v = NaN"
  shows "value_counts vs = []"
proof -
  from assms have "filter (\<lambda>v. v \<noteq> NaN) vs = []" by (simp add: filter_empty_conv)
  then show ?thesis by (simp add: value_counts_def)
qed

lemma top_counts_all_missing:
  assumes keys: "map_of (cols p) c = Some keys" and ns: "\<not> list_ex is_str keys"
    and len: "length keys = n"
    and col: "map_of (cols p) col = Some (replicate n NaN)"
  shows "top_counts p c col k = Inr []"
proof -
  let ?ps = "sorted_positions keys"
  from keys ns have s: "sort_values p c = Inr (take_rows ?ps p)"
    by (simp add: sort_values_def loc_col_def)
  from col have l: "loc_col (take_rows ?ps p) col = Inr (map (nth (replicate n NaN)) ?ps)"
    by (simp add: loc_col_def take_rows_def
          map_of_map_values[where f = "\<lambda>vs. map (nth vs) (sorted_positions keys)"])
  have "\<forall>v \<in> set (map (nth (replicate n NaN)) ?ps). v = NaN"
    using len by (auto simp: set_sorted_positions)
  then have "\<forall>v \<in> set (take k (map (nth (replicate n NaN)) ?ps)). v = NaN"
    by (meson in_set_takeD)
  from value_counts_all_missing[OF this] s l show ?thesis
    by (simp add: top_counts_def)
qed

lemma frame_of_array_Inr:
  assumes "frame_of_array a idx = Inr p"
  shows "index p = idx"
    and "\<forall>cv \<in> set (cols p). (\<exists>k. fst cv = ColIdx k) \<and> length (snd cv) = length idx \<and>
            list_all is_num (snd cv)"
  using assms by (auto simp: frame_of_array_def list_all_iff split: if_splits)

lemma is_num_not_str: "is_num c \<Longrightarrow> \<not> is_str c"
  by (cases c) auto

lemma cols_rename:
  "cols (rename_columns d m) =
     map (\<lambda>cv. (case map_of m (fst cv) of None \<Rightarrow> fst cv | Some c \<Rightarrow> c, snd cv)) (cols d)"
  by (simp add: rename_columns_def)

text \<open>
  Claim C9. \<^verbatim>\<open>pca_df\<close> is built from the first five score columns with the row labels
  of \<^verbatim>\<open>df\<close> and then joined with \<^verbatim>\<open>desc_df\<close>, whose row labels are the
  \<^verbatim>\<open>NDB_No\<close> values. For every run of that cell in which the two sets of labels are
  disjoint (no label of one equal in value to a label of the other), every column that the join brings in from \<^verbatim>\<open>desc_df\<close> is missing in
  every row; \<^verbatim>\<open>FoodGroup\<close> (taken to be a column of \<^verbatim>\<open>desc_df\<close>) is still
  entirely missing in the table the cell leaves in \<^verbatim>\<open>pca_df\<close>; and sorting that
  table by any of its columns, taking \<^verbatim>\<open>FoodGroup\<close>, keeping 500 values and
  counting them returns the empty count.
\<close>

theorem join_all_missing:
  assumes vars: "v_pca s = Some a" "v_df s = Some d" "v_desc_df s = Some desc"
    and disj: "set (map label_key (index d)) \<inter> set (map label_key (index desc)) = {}"
    and fg: "FoodGroup \<in> set (columns desc)"
    and run: "run L component_cells s = Inr s'"
  shows "\<exists>p0 j p.
      frame_of_array (map (take 5) a) (index d) = Inr p0 \<and> join p0 desc = Inr j \<and>
      (\<forall>c \<in> set (columns desc). loc_col j c = Inr (replicate (length (index d)) NaN)) \<and>
      v_pca_df s' = Some p \<and>
      loc_col p FoodGroup = Inr (replicate (length (index d)) NaN) \<and>
      (\<forall>c \<in> set (columns p). top_counts p c FoodGroup 500 = Inr [])"
proof -
  let ?n = "length (index d)"
  let ?names = "[ColName ''Shrt_Desc'', ColName ''GmWt_Desc1'', ColName ''GmWt_2'',
                 ColName ''GmWt_Desc2'', ColName ''Refuse_Pct'']"
  let ?m = "[(ColIdx 0, ColName ''c1''), (ColIdx 1, ColName ''c2''),
             (ColIdx 2, ColName ''c3''), (ColIdx 3, ColName ''c4''),
             (ColIdx 4, ColName ''c5'')]"
  let ?Q = "\<lambda>cv. length (snd cv) = ?n \<and> \<not> list_ex is_str (snd cv) \<and>
                 (fst cv = FoodGroup \<longrightarrow> snd cv = replicate ?n NaN)"
  from run vars obtain p0 j j' where
    f: "frame_of_array (map (take 5) a) (index d) = Inr p0"
    and jn: "join p0 desc = Inr j"
    and dr: "drop_columns j ?names = Inr j'"
    and p: "v_pca_df s' = Some (rename_columns j' ?m)"
    by (auto simp: component_cells_def bindE_eq_Inr need_eq_Inr split: if_splits)
  let ?p = "rename_columns j' ?m"
  note p0 = frame_of_array_Inr[OF f]
  from disj p0(1)
  have disj0: "set (map label_key (index p0)) \<inter> set (map label_key (index desc)) = {}"
    by simp
  note jd = join_disjoint[OF jn disj0]
  let ?left = "map (\<lambda>cv. (fst cv, map (nth (snd cv)) [0..<?n])) (cols p0)"
  let ?right = "map (\<lambda>cv. (fst cv, replicate ?n NaN)) (cols desc)"
  have "(fst cv, map (nth (snd cv)) [0..<?n]) = cv" if "cv \<in> set (cols p0)" for cv
  proof -
    from that p0(2) have "length (snd cv) = ?n" by blast
    then have "map (nth (snd cv)) [0..<?n] = snd cv" by (metis map_nth)
    then show ?thesis by simp
  qed
  then have left: "?left = cols p0"
    by (intro map_idI)
  from jd(2) p0(1) left have cj: "cols j = cols p0 @ ?right" by simp
  have missing: "loc_col j c = Inr (replicate ?n NaN)" if "c \<in> set (columns desc)" for c
  proof -
    from that jd(3) have "c \<notin> fst ` set (cols p0)" by (auto simp: columns_def)
    then have "map_of (cols p0) c = None" by (simp add: map_of_eq_None_iff)
    moreover from that obtain w where "map_of (cols desc) c = Some w"
      by (metis columns_def map_of_eq_None_iff not_Some_eq set_map)
    ultimately show ?thesis
      by (simp add: loc_col_def cj map_add_def
            map_of_map_values[where f = "\<lambda>vs. replicate ?n NaN"])
  qed
  have Qj: "\<forall>cv \<in> set (cols j). ?Q cv"
    using p0(2) by (auto simp: cj list_all_iff list_ex_iff dest: is_num_not_str)
  from dr have cj': "cols j' = filter (\<lambda>cv. fst cv \<notin> set ?names) (cols j)"
    by (auto simp: drop_columns_def split: if_splits)
  let ?ren = "\<lambda>l. case map_of ?m l of None \<Rightarrow> l | Some c \<Rightarrow> c"
  have cp: "cols ?p = map (\<lambda>cv. (?ren (fst cv), snd cv)) (cols j')"
    by (rule cols_rename)
  have rename_keeps: "?ren l = FoodGroup \<Longrightarrow> l = FoodGroup" for l
    by (cases l) (simp_all split: if_splits)
  have rename_fixes: "?ren FoodGroup = FoodGroup"
    by simp
  have Qj': "\<forall>cv \<in> set (cols j'). ?Q cv"
    using Qj by (simp add: cj')
  have Qp: "?Q cv" if "cv \<in> set (cols ?p)" for cv
  proof -
    from that obtain cv0 where
      m: "cv0 \<in> set (cols j')" and e: "cv = (?ren (fst cv0), snd cv0)"
      unfolding cp by auto
    from Qj' m have q: "?Q cv0" by blast
    from e have f1: "fst cv = ?ren (fst cv0)" by (simp only: fst_conv)
    from e have f2: "snd cv = snd cv0" by (simp only: snd_conv)
    have k: "fst cv0 = FoodGroup" if "fst cv = FoodGroup"
    proof -
      from that f1 have "?ren (fst cv0) = FoodGroup" by (simp only:)
      then show ?thesis by (rule rename_keeps)
    qed
    from q k show ?thesis unfolding f2 by blast
  qed
  from fg obtain w where "(FoodGroup, w) \<in> set (cols desc)"
    by (auto simp: columns_def)
  then have "(FoodGroup, replicate ?n NaN) \<in> set (cols j)"
    by (force simp: cj)
  then have "(FoodGroup, replicate ?n NaN) \<in> set (cols j')"
    by (simp add: cj')
  then have "(?ren FoodGroup, replicate ?n NaN) \<in> set (cols ?p)"
    unfolding cp by force
  then have "FoodGroup \<in> fst ` set (cols ?p)"
    by (metis fst_conv image_eqI rename_fixes)
  then obtain vs where vs: "map_of (cols ?p) FoodGroup = Some vs"
    by (metis map_of_eq_None_iff not_Some_eq)
  then have "(FoodGroup, vs) \<in> set (cols ?p)" by (rule map_of_SomeD)
  from Qp[OF this] have "vs = replicate ?n NaN" by simp
  with vs have fgp: "map_of (cols ?p) FoodGroup = Some (replicate ?n NaN)" by simp
  have counts: "top_counts ?p c FoodGroup 500 = Inr []" if "c \<in> set (columns ?p)" for c
  proof -
    from that obtain keys where k: "map_of (cols ?p) c = Some keys"
      by (metis columns_def map_of_eq_None_iff not_Some_eq set_map)
    then have "(c, keys) \<in> set (cols ?p)" by (rule map_of_SomeD)
    from Qp[OF this] have "\<not> list_ex is_str keys" "length keys = ?n" by simp_all
    from top_counts_all_missing[OF k this fgp] show ?thesis .
  qed
  from f jn missing p fgp counts show ?thesis
    by (auto simp: loc_col_def)
qed

lemma sample_components:
  "(case run sample_lib
           (import_cells @ null_cells @ split_cells @ corr_cells @ normalize_cells @ pca_cells)
           empty_env of
      Inl e \<Rightarrow> False
    | Inr s \<Rightarrow> (case (v_pca s, v_df s, v_desc_df s) of
         (Some a, Some d, Some desc) \<Rightarrow>
            list_all (\<lambda>l. label_key l \<notin> set (map label_key (index desc))) (index d) \<and>
            FoodGroup \<in> set (columns desc) \<and> length (index d) = 3 \<and>
            index d = [I64 0, I64 1, I64 2] \<and> index desc = [I64 1001, I64 1002, I64 1003] \<and>
            (case run sample_lib component_cells s of
               Inl e \<Rightarrow> False
             | Inr s' \<Rightarrow> (case v_pca_df s' of
                  None \<Rightarrow> False
                | Some p \<Rightarrow> ColName ''c1'' \<in> set (columns p) \<and> ColName ''c2'' \<in> set (columns p)))
       | _ \<Rightarrow> False))"
  by code_simp

theorem join_all_missing_witness:
  "\<exists>s a d desc s' p.
     run sample_lib
       (import_cells @ null_cells @ split_cells @ corr_cells @ normalize_cells @ pca_cells)
       empty_env = Inr s \<and>
     v_pca s = Some a \<and> v_df s = Some d \<and> v_desc_df s = Some desc \<and>
     index d = [I64 0, I64 1, I64 2] \<and> index desc = [I64 1001, I64 1002, I64 1003] \<and>
     set (map label_key (index d)) \<inter> set (map label_key (index desc)) = {} \<and>
     FoodGroup \<in> set (columns desc) \<and>
     run sample_lib component_cells s = Inr s' \<and> v_pca_df s' = Some p \<and>
     loc_col p FoodGroup = Inr [NaN, NaN, NaN] \<and>
     top_counts p (ColName ''c1'') FoodGroup 500 = Inr [] \<and>
     top_counts p (ColName ''c2'') FoodGroup 500 = Inr []"
proof -
  from sample_components obtain s a d desc s' p where
    r: "run sample_lib
          (import_cells @ null_cells @ split_cells @ corr_cells @ normalize_cells @ pca_cells)
          empty_env = Inr s"
    and v: "v_pca s = Some a" "v_df s = Some d" "v_desc_df s = Some desc"
    and dj: "list_all (\<lambda>l. label_key l \<notin> set (map label_key (index desc))) (index d)"
    and fg: "FoodGroup \<in> set (columns desc)" and n: "length (index d) = 3"
    and ix: "index d = [I64 0, I64 1, I64 2]" "index desc = [I64 1001, I64 1002, I64 1003]"
    and r': "run sample_lib component_cells s = Inr s'" and p: "v_pca_df s' = Some p"
    and c: "ColName ''c1'' \<in> set (columns p)" "ColName ''c2'' \<in> set (columns p)"
    by (auto split: sum.splits option.splits prod.splits)
  from dj have disj: "set (map label_key (index d)) \<inter> set (map label_key (index desc)) = {}"
    by (auto simp: list_all_iff)
  from join_all_missing[OF v disj fg r'] p c n
  have "loc_col p FoodGroup = Inr (replicate 3 NaN)"
    "top_counts p (ColName ''c1'') FoodGroup 500 = Inr []"
    "top_counts p (ColName ''c2'') FoodGroup 500 = Inr []"
    by auto
  then have "loc_col p FoodGroup = Inr [NaN, NaN, NaN]"
    "top_counts p (ColName ''c1'') FoodGroup 500 = Inr []"
    "top_counts p (ColName ''c2'') FoodGroup 500 = Inr []"
    by (simp_all add: numeral_3_eq_3)
  with r v ix disj fg r' p show ?thesis by blast
qed

section \<open>The run as a whole\<close>

lemmas cells_defs =
  notebook_def import_cells_def null_cells_def split_cells_def corr_cells_def
  normalize_cells_def pca_cells_def component_cells_def interpret_cells_def

lemmas path_defs =
  data_path_def describe_def nutrients_def transform_def inspect_def

lemma run_notebook: "run L notebook s = data_path L"
  by (cases s) (simp add: cells_defs path_defs bindE_assoc)

lemma sample_run_ok: "\<not> isl (run sample_lib notebook empty_env)"
  by code_simp

lemma data_path_keeps_rows:
  assumes "data_path L = Inr s'"
  shows "\<exists>raw. read_csv L csv_path csv_encoding = Inr raw \<and> v_df s' = Some raw"
  using assms unfolding data_path_def bindE_eq_Inr by auto

text \<open>
  Claim C4, as amended. The notebook's data path applies its operations in this order,
  each applied to the output of the one before it: read the CSV, drop the descriptive
  and correlated columns, transform (add 1, then Box-Cox per column), standardize,
  decompose, then build and inspect the result tables. From any starting state, running
  the cells gives exactly the result of the composition \<open>data_path\<close> (the same final
  variables, or the same exception), and, the displays and plots set aside, the stages
  of the cells occur top to bottom in that order without interleaving. No cell drops
  rows: after a successful run \<^verbatim>\<open>df\<close> is still the table as it was read.
\<close>

theorem notebook_follows_data_path:
  "run L notebook s = data_path L \<and>
   remdups_adj (filter (\<lambda>g. g \<noteq> Display) (map stage_of notebook)) =
     [ReadStage, DropColumns, Transform, Standardize, Decompose, Inspect] \<and>
   (run L notebook s = Inr s' \<longrightarrow>
      (\<exists>raw. read_csv L csv_path csv_encoding = Inr raw \<and> v_df s' = Some raw))"
proof (intro conjI impI)
  show "run L notebook s = data_path L" by (rule run_notebook)
  show "remdups_adj (filter (\<lambda>g. g \<noteq> Display) (map stage_of notebook)) =
     [ReadStage, DropColumns, Transform, Standardize, Decompose, Inspect]"
    by code_simp
  assume "run L notebook s = Inr s'"
  then have "data_path L = Inr s'" by (simp add: run_notebook)
  then show "\<exists>raw. read_csv L csv_path csv_encoding = Inr raw \<and> v_df s' = Some raw"
    by (rule data_path_keeps_rows)
qed

theorem notebook_follows_data_path_witness:
  "run sample_lib notebook empty_env = data_path sample_lib \<and>
   (\<exists>s'. run sample_lib notebook empty_env = Inr s' \<and> v_df s' = Some sample_csv) \<and>
   read_csv sample_lib csv_path csv_encoding = Inr sample_csv"
proof -
  from not_isl_Inr[OF sample_run_ok] obtain s' where
    r: "run sample_lib notebook empty_env = Inr s'" by blast
  have f: "read_csv sample_lib csv_path csv_encoding = Inr sample_csv"
    by (simp add: sample_lib_def)
  from notebook_follows_data_path[of sample_lib empty_env s'] r f
  have "run sample_lib notebook empty_env = data_path sample_lib" "v_df s' = Some sample_csv"
    by auto
  with r f show ?thesis by blast
qed

text \<open>
  Claim C4 as first stated has a step that drops the rows containing a missing value
  after the read, and lets plots come only after the decomposition. On the sample file,
  whose second row has missing values (\<^verbatim>\<open>dropna\<close> would leave two rows of three), the
  notebook runs to its end with \<^verbatim>\<open>df\<close> still the table as read, and a missing value
  in the table handed to the transform; and the histogram of \<^verbatim>\<open>nutr_df\<close> (statement
  12) is plotted before the transform (13) and the decomposition (18).
\<close>

theorem drop_rows_counterexample:
  "\<not> isl (run sample_lib notebook empty_env) \<and>
   v_df (projr (run sample_lib notebook empty_env)) = Some sample_csv \<and>
   length (index sample_csv) = 3 \<and> length (index (dropna sample_csv)) = 2 \<and>
   map_option (\<lambda>d. loc_col d (ColName ''Nutrient_7''))
     (v_nutr_df (projr (run sample_lib notebook empty_env))) = Some (Inr [Num 3, NaN, Num 5]) \<and>
   notebook ! 12 = Show Vnutr_df \<and> notebook ! 13 = PlusOne \<and> notebook ! 18 = PcaFit \<and>
   stage_of (notebook ! 12) = Display"
  by code_simp

section \<open>The CSV file\<close>

lemma columns_sub:
  assumes "set (cols d') \<subseteq> set (cols d)"
  shows "set (columns d') \<subseteq> set (columns d)"
  using assms by (auto simp: columns_def)

lemma set_index_has:
  assumes "set_index d c = Inr d'"
  shows "c \<in> set (columns d)"
proof -
  from set_index_Inr[OF assms] have "(c, index d') \<in> set (cols d)"
    by (auto dest: map_of_SomeD)
  then show ?thesis by (force simp: columns_def)
qed

lemma describe_needs:
  assumes "describe d = Inr desc"
  shows "NDB_No \<in> set (columns d)"
proof -
  from assms obtain d1 where
    a: "iloc_cols d desc_positions = Inr d1" and b: "set_index d1 NDB_No = Inr desc"
    by (auto simp: describe_def bindE_eq_Inr)
  from set_index_has[OF b] columns_sub[of d1 d] iloc_cols_Inr[OF a] show ?thesis by blast
qed

lemma nutrients_needs:
  assumes "nutrients d = Inr n"
  shows "set [FoodGroup, Shrt_Desc, Folate_DFE, Vit_A_RAE, Vit_D_IU] \<subseteq> set (columns d)"
proof -
  from assms obtain n1 where
    a: "drop_columns (iloc_drop_last d 5) [FoodGroup, Shrt_Desc] = Inr n1"
    and c: "drop_columns n1 [Folate_DFE, Vit_A_RAE, Vit_D_IU] = Inr n"
    by (auto simp: nutrients_def bindE_eq_Inr)
  have s0: "set (columns (iloc_drop_last d 5)) \<subseteq> set (columns d)"
    using iloc_drop_last_sub[of d 5] by (intro columns_sub) simp
  from drop_columns_Inr[OF a]
  have a1: "set [FoodGroup, Shrt_Desc] \<subseteq> set (columns (iloc_drop_last d 5))"
    and s1: "set (columns n1) \<subseteq> set (columns (iloc_drop_last d 5))"
    by (simp_all add: columns_sub)
  from drop_columns_Inr[OF c]
  have c1: "set [Folate_DFE, Vit_A_RAE, Vit_D_IU] \<subseteq> set (columns n1)" by simp
  from a1 c1 s0 s1 show ?thesis by (simp only: set_simps) blast
qed

lemma notebook_reads_once:
  "filter is_read notebook = [ReadCsv ''Data/USDA-nndb-combined.csv'' ''latin_1'']"
  by code_simp

lemma run_needs_columns:
  assumes "run L notebook s = Inr s'"
  shows "\<exists>raw. read_csv L csv_path csv_encoding = Inr raw \<and>
           set [NDB_No, FoodGroup, Shrt_Desc, Folate_DFE, Vit_A_RAE, Vit_D_IU]
             \<subseteq> set (columns raw)"
proof -
  from assms have "data_path L = Inr s'" by (simp add: run_notebook)
  then obtain raw desc nutr where
    r: "read_csv L csv_path csv_encoding = Inr raw"
    and d: "describe raw = Inr desc" and n: "nutrients raw = Inr nutr"
    unfolding data_path_def bindE_eq_Inr by blast
  from describe_needs[OF d] nutrients_needs[OF n] r show ?thesis
    by simp
qed

text \<open>
  Claim C6. The notebook reaches its data through one external interface: among its
  statements there is exactly one \<^verbatim>\<open>pd.read_csv\<close> call, on the fixed path
  \<^verbatim>\<open>Data/USDA-nndb-combined.csv\<close> with the fixed encoding \<^verbatim>\<open>latin_1\<close>. In every
  successful run the table read from that file has the columns \<^verbatim>\<open>NDB_No\<close>,
  \<^verbatim>\<open>FoodGroup\<close>, \<^verbatim>\<open>Shrt_Desc\<close>, \<^verbatim>\<open>Folate_DFE_(.g)\<close> (with the micro sign),
  \<^verbatim>\<open>Vit_A_RAE\<close> and \<^verbatim>\<open>Vit_D_IU\<close>; when the file is read and one of them is
  absent, the run ends in an exception raised by a later step.
\<close>

theorem csv_interface:
  "filter is_read notebook = [ReadCsv ''Data/USDA-nndb-combined.csv'' ''latin_1''] \<and>
   (run L notebook s = Inr s' \<longrightarrow>
      (\<exists>raw. read_csv L ''Data/USDA-nndb-combined.csv'' ''latin_1'' = Inr raw \<and>
         set [NDB_No, FoodGroup, Shrt_Desc, Folate_DFE, Vit_A_RAE, Vit_D_IU]
           \<subseteq> set (columns raw))) \<and>
   (read_csv L ''Data/USDA-nndb-combined.csv'' ''latin_1'' = Inr table \<and>
    c \<in> set [NDB_No, FoodGroup, Shrt_Desc, Folate_DFE, Vit_A_RAE, Vit_D_IU] \<and>
    c \<notin> set (columns table) \<longrightarrow>
      (\<exists>e. run L notebook s = Inl e))"
proof (intro conjI impI)
  show "filter is_read notebook = [ReadCsv ''Data/USDA-nndb-combined.csv'' ''latin_1'']"
    by (rule notebook_reads_once)
next
  assume "run L notebook s = Inr s'"
  from run_needs_columns[OF this]
  show "\<exists>raw. read_csv L ''Data/USDA-nndb-combined.csv'' ''latin_1'' = Inr raw \<and>
         set [NDB_No, FoodGroup, Shrt_Desc, Folate_DFE, Vit_A_RAE, Vit_D_IU]
           \<subseteq> set (columns raw)"
    by (simp add: csv_path_def csv_encoding_def)
next
  assume a: "read_csv L ''Data/USDA-nndb-combined.csv'' ''latin_1'' = Inr table \<and>
    c \<in> set [NDB_No, FoodGroup, Shrt_Desc, Folate_DFE, Vit_A_RAE, Vit_D_IU] \<and>
    c \<notin> set (columns table)"
  show "\<exists>e. run L notebook s = Inl e"
  proof (cases "run L notebook s")
    case (Inl e)
    then show ?thesis by blast
  next
    case (Inr s2)
    from run_needs_columns[OF this] a have False
      by (auto simp: csv_path_def csv_encoding_def)
    then show ?thesis ..
  qed
qed

lemma renamed_run_fails: "run renamed_column_lib notebook empty_env = Inl KeyError"
  by code_simp

lemma renamed_lacks:
  "Vit_D_IU \<notin> set (columns (rename_columns sample_csv [(Vit_D_IU, ColName ''Vit_D'')]))"
  by code_simp

theorem csv_interface_witness:
  "(\<exists>s'. run sample_lib notebook empty_env = Inr s') \<and>
   set [NDB_No, FoodGroup, Shrt_Desc, Folate_DFE, Vit_A_RAE, Vit_D_IU]
     \<subseteq> set (columns sample_csv) \<and>
   Vit_D_IU \<notin> set (columns (rename_columns sample_csv [(Vit_D_IU, ColName ''Vit_D'')])) \<and>
   run renamed_column_lib notebook empty_env = Inl KeyError"
proof -
  obtain s' where r: "run sample_lib notebook empty_env = Inr s'"
    using not_isl_Inr[OF sample_run_ok] by blast
  have f: "read_csv sample_lib ''Data/USDA-nndb-combined.csv'' ''latin_1'' = Inr sample_csv"
    by (simp add: sample_lib_def csv_path_def csv_encoding_def)
  from csv_interface[of sample_lib empty_env s'] r f
  have "set [NDB_No, FoodGroup, Shrt_Desc, Folate_DFE, Vit_A_RAE, Vit_D_IU]
     \<subseteq> set (columns sample_csv)" by auto
  moreover
  have g: "read_csv renamed_column_lib ''Data/USDA-nndb-combined.csv'' ''latin_1'' =
      Inr (rename_columns sample_csv [(Vit_D_IU, ColName ''Vit_D'')])"
    by (simp add: renamed_column_lib_def)
  from csv_interface[of renamed_column_lib empty_env _
      "rename_columns sample_csv [(Vit_D_IU, ColName ''Vit_D'')]" Vit_D_IU] g renamed_lacks
  have "\<exists>e. run renamed_column_lib notebook empty_env = Inl e" by simp
  with renamed_run_fails have "run renamed_column_lib notebook empty_env = Inl KeyError"
    by simp
  ultimately show ?thesis using r renamed_lacks by blast
qed

section \<open>Exceptions\<close>


















end
